theory Spec2Isabelle
  imports Main
begin

section \<open>Data model (bot.py, "Data Models")\<close>

type_synonym guild_id = nat
type_synonym channel = nat
type_synonym vc_ref = nat

text \<open>The dataclass \<open>Track\<close>. The stream reference is whatever \<open>info.get("url")\<close>
  returned, so it may be absent.\<close>

record track =
  title :: string
  stream_url :: "string option"
  webpage_url :: string
  duration :: "int option"
  requester_id :: nat

text \<open>The dataclass \<open>GuildMusicState\<close>. The voice client is a Python object shared by
  reference, so the state holds its address in the store of voice clients.\<close>

record guild_music_state =
  queue :: "track list"
  now_playing :: "track option"
  voice_client :: "vc_ref option"

text \<open>A \<open>discord.VoiceClient\<close> object, as far as the program observes it:
  \<open>is_connected()\<close>, \<open>channel\<close>, \<open>is_playing()\<close>, \<open>is_paused()\<close>.\<close>

record vclient =
  vc_connected :: bool
  vc_channel :: channel
  vc_playing :: bool
  vc_paused :: bool

datatype exn = IndexError | ClientException | AssertionError | ExtractError

text \<open>What \<open>interaction.followup.send\<close> delivers to the requester. The wording of the
  messages is not modelled, only which message it is and the data it carries.\<close>

datatype response =
    NeedVoiceChannel
  | Joined channel
  | Moved channel
  | NotInVoice
  | LeftAndCleared
  | NotFound
  | NoStream
  | PlayingNow string
  | AddedToQueue string
  | NothingPlayingNow
  | Skipped
  | NothingToPause
  | Paused
  | NotPaused
  | Resumed
  | StoppedAndCleared
  | NoCurrentTrack
  | NowPlayingDesc string string string
  | QueueEmpty
  | QueueListing "(string \<times> string \<times> string) list"

text \<open>The lines written with \<open>print\<close> (the log).\<close>

datatype log_line =
    ExtractFailed string
  | FfmpegFailed string
  | PlaybackError string
  | ScheduleError exn
  | NowPlayingLog guild_id string

text \<open>The process state: the module-level dictionary \<open>music_states\<close>, the store of
  voice client objects with its allocation counter, the messages sent and the log.\<close>

record world =
  music_states :: "guild_id \<rightharpoonup> guild_music_state"
  clients :: "vc_ref \<Rightarrow> vclient"
  next_client :: vc_ref
  sent :: "response list"
  printed :: "log_line list"

text \<open>How a coroutine ends: it returns, it is suspended in \<open>asyncio.sleep(5)\<close> (the
  seconds, and the voice client it read before the sleep), or an exception escapes it.\<close>

datatype outcome = Returned | Sleeping nat vc_ref | Raised exn

record interaction =
  guild :: "guild_id option"
  user_id :: nat
  user_voice :: "channel option option"

section \<open>The registry\<close>

definition new_state :: guild_music_state where
  "new_state = \<lparr>queue = [], now_playing = None, voice_client = None\<rparr>"

definition get_music_state :: "guild_id \<Rightarrow> world \<Rightarrow> guild_music_state \<times> world" where
  "get_music_state gid w =
     (case music_states w gid of
        None \<Rightarrow> (new_state, w\<lparr>music_states := (music_states w)(gid \<mapsto> new_state)\<rparr>)
      | Some s \<Rightarrow> (s, w))"

text \<open>The state a lookup of the guild gives, without the side effect on the registry.\<close>

definition state_of :: "world \<Rightarrow> guild_id \<Rightarrow> guild_music_state" where
  "state_of w gid = fst (get_music_state gid w)"

text \<open>The process at start: \<open>music_states = {}\<close>, no voice client yet, nothing sent.\<close>

definition initial_world :: world where
  "initial_world =
     \<lparr>music_states = Map.empty,
      clients = (\<lambda>_. \<lparr>vc_connected = False, vc_channel = 0, vc_playing = False,
                       vc_paused = False\<rparr>),
      next_client = 0, sent = [], printed = []\<rparr>"

text \<open>Assignments to the fields of the state object of a guild. The object is the one
  the registry holds, so the update is applied to the registry's entry.\<close>

definition upd_state ::
  "guild_id \<Rightarrow> (guild_music_state \<Rightarrow> guild_music_state) \<Rightarrow> world \<Rightarrow> world" where
  "upd_state gid f w =
     (case music_states w gid of
        None \<Rightarrow> w
      | Some s \<Rightarrow> w\<lparr>music_states := (music_states w)(gid \<mapsto> f s)\<rparr>)"

definition send :: "response \<Rightarrow> world \<Rightarrow> world" where
  "send m w = w\<lparr>sent := sent w @ [m]\<rparr>"

definition print_line :: "log_line \<Rightarrow> world \<Rightarrow> world" where
  "print_line l w = w\<lparr>printed := printed w @ [l]\<rparr>"

section \<open>The voice client (discord.py), as the program uses it\<close>

text \<open>The test \<open>vc is None or not vc.is_connected()\<close> of the source: \<open>live_client\<close>
  gives the client when it is there and connected, and \<open>None\<close> when the test holds.\<close>

definition live_client :: "world \<Rightarrow> vc_ref option \<Rightarrow> vc_ref option" where
  "live_client w vco =
     (case vco of
        None \<Rightarrow> None
      | Some vc \<Rightarrow> if vc_connected (clients w vc) then Some vc else None)"

definition upd_client :: "vc_ref \<Rightarrow> (vclient \<Rightarrow> vclient) \<Rightarrow> world \<Rightarrow> world" where
  "upd_client vc f w = w\<lparr>clients := (clients w)(vc := f (clients w vc))\<rparr>"

text \<open>\<open>channel.connect()\<close> creates a new voice client bound to the channel.\<close>

definition connect :: "channel \<Rightarrow> world \<Rightarrow> vc_ref \<times> world" where
  "connect ch w =
     (next_client w,
      w\<lparr>clients := (clients w)(next_client w :=
           \<lparr>vc_connected = True, vc_channel = ch, vc_playing = False, vc_paused = False\<rparr>),
        next_client := Suc (next_client w)\<rparr>)"

definition move_to :: "vc_ref \<Rightarrow> channel \<Rightarrow> world \<Rightarrow> world" where
  "move_to vc ch w = upd_client vc (\<lambda>c. c\<lparr>vc_channel := ch\<rparr>) w"

text \<open>\<open>vc.play\<close> refuses a client that is not connected or is already playing; otherwise
  the engine renders the source.\<close>

definition vc_play :: "vc_ref \<Rightarrow> world \<Rightarrow> exn option \<times> world" where
  "vc_play vc w =
     (if \<not> vc_connected (clients w vc) then (Some ClientException, w)
      else if vc_playing (clients w vc) then (Some ClientException, w)
      else (None, upd_client vc (\<lambda>c. c\<lparr>vc_playing := True, vc_paused := False\<rparr>) w))"

definition vc_stop :: "vc_ref \<Rightarrow> world \<Rightarrow> world" where
  "vc_stop vc w = upd_client vc (\<lambda>c. c\<lparr>vc_playing := False, vc_paused := False\<rparr>) w"

definition vc_pause :: "vc_ref \<Rightarrow> world \<Rightarrow> world" where
  "vc_pause vc w =
     (if vc_playing (clients w vc)
      then upd_client vc (\<lambda>c. c\<lparr>vc_playing := False, vc_paused := True\<rparr>) w else w)"

definition vc_resume :: "vc_ref \<Rightarrow> world \<Rightarrow> world" where
  "vc_resume vc w =
     (if vc_paused (clients w vc)
      then upd_client vc (\<lambda>c. c\<lparr>vc_playing := True, vc_paused := False\<rparr>) w else w)"

text \<open>\<open>vc.disconnect()\<close> halts the engine and closes the session.\<close>

definition vc_disconnect :: "vc_ref \<Rightarrow> world \<Rightarrow> world" where
  "vc_disconnect vc w =
     upd_client vc (\<lambda>c. c\<lparr>vc_connected := False, vc_playing := False, vc_paused := False\<rparr>) w"

text \<open>The engine reaches the end of the track it renders.\<close>

definition engine_finished :: "vc_ref \<Rightarrow> world \<Rightarrow> world" where
  "engine_finished vc w = upd_client vc (\<lambda>c. c\<lparr>vc_playing := False, vc_paused := False\<rparr>) w"

section \<open>The scheduler: \<open>start_playback\<close>\<close>

text \<open>\<open>source_ok url\<close> says that \<open>discord.FFmpegOpusAudio(url, ...)\<close> returns a source;
  where it is false the constructor raises. The coroutine is cut at its one suspension,
  \<open>asyncio.sleep(5)\<close>: \<open>start_playback\<close> runs up to it and \<open>start_playback_wake\<close> is
  the rest, run when the sleep is over.\<close>

function start_playback ::
  "(string option \<Rightarrow> bool) \<Rightarrow> guild_id \<Rightarrow> world \<Rightarrow> outcome \<times> world" where
  "start_playback source_ok gid w0 =
     (let (state, w) = get_music_state gid w0 in
      case live_client w (voice_client state) of
        None \<Rightarrow> (Returned, upd_state gid (\<lambda>s. s\<lparr>now_playing := None, queue := []\<rparr>) w)
      | Some vc \<Rightarrow>
         (case queue state of
            [] \<Rightarrow> (Sleeping 5 vc, upd_state gid (\<lambda>s. s\<lparr>now_playing := None\<rparr>) w)
          | track # rest \<Rightarrow>
              (let w1 = upd_state gid (\<lambda>s. s\<lparr>queue := rest, now_playing := Some track\<rparr>) w in
               if \<not> source_ok (stream_url track)
               then start_playback source_ok gid (print_line (FfmpegFailed (title track)) w1)
               else
                 (case vc_play vc w1 of
                    (Some e, w2) \<Rightarrow> (Raised e, w2)
                  | (None, w2) \<Rightarrow>
                      (Returned, print_line (NowPlayingLog gid (title track)) w2)))))"
  by pat_completeness auto
termination
  by (relation "measure (\<lambda>(source_ok, gid, w).
        case music_states w gid of None \<Rightarrow> 0 | Some s \<Rightarrow> length (queue s))")
     (auto simp: get_music_state_def upd_state_def print_line_def new_state_def
           split: option.splits)

text \<open>The rest of the empty-queue branch, after the sleep: \<open>vc\<close> is the client read before
  the sleep, the state object is the registry's entry (the registry never removes one).\<close>

definition start_playback_wake :: "guild_id \<Rightarrow> vc_ref \<Rightarrow> world \<Rightarrow> world" where
  "start_playback_wake gid vc w =
     (case music_states w gid of
        None \<Rightarrow> w
      | Some state \<Rightarrow>
          if \<not> vc_playing (clients w vc) \<and> queue state = []
          then upd_state gid (\<lambda>s. s\<lparr>voice_client := None\<rparr>) (vc_disconnect vc w)
          else w)"

text \<open>The completion callback \<open>after_playback\<close> of the engine: it schedules
  \<open>start_playback\<close> and prints an exception of it instead of raising.\<close>

definition after_playback ::
  "(string option \<Rightarrow> bool) \<Rightarrow> guild_id \<Rightarrow> string \<Rightarrow> bool \<Rightarrow> world \<Rightarrow> outcome \<times> world" where
  "after_playback source_ok gid track_title error w =
     (let w1 = (if error then print_line (PlaybackError track_title) w else w) in
      case start_playback source_ok gid w1 of
        (Raised e, w2) \<Rightarrow> (Returned, print_line (ScheduleError e) w2)
      | (out, w2) \<Rightarrow> (out, w2))"

section \<open>The resolver adapter\<close>

text \<open>The dictionary that yt-dlp returns, with the keys the program reads; \<open>None\<close> is a
  missing key. \<open>extract_info\<close>, a parameter, is \<open>ydl.extract_info(query, download=False)\<close>:
  it raises or returns a dictionary (or nothing).\<close>

datatype info = Info
  (info_entries: "info list option")
  (info_title: "string option")
  (info_url: "string option")
  (info_webpage_url: "string option")
  (info_original_url: "string option")
  (info_duration: "int option")

definition ytdlp_extract ::
  "(string \<Rightarrow> exn + info option) \<Rightarrow> string \<Rightarrow> world \<Rightarrow> info option \<times> world" where
  "ytdlp_extract extract_info query w =
     (case extract_info query of
        Inl e \<Rightarrow> (None, print_line (ExtractFailed query) w)
      | Inr r \<Rightarrow> (r, w))"

text \<open>\<open>info["entries"][0]\<close> raises \<open>IndexError\<close> on an empty list.\<close>

definition first_entry :: "info \<Rightarrow> exn + info" where
  "first_entry info1 =
     (case info_entries info1 of
        None \<Rightarrow> Inr info1
      | Some es \<Rightarrow> (case es of [] \<Rightarrow> Inl IndexError | e # _ \<Rightarrow> Inr e))"

definition build_track_from_info :: "info \<Rightarrow> nat \<Rightarrow> exn + track" where
  "build_track_from_info info0 rid =
     (case first_entry info0 of
        Inl e \<Rightarrow> Inl e
      | Inr info1 \<Rightarrow>
          Inr \<lparr>title = (case info_title info1 of None \<Rightarrow> ''Untitled'' | Some t \<Rightarrow> t),
               stream_url = info_url info1,
               webpage_url =
                 (case info_webpage_url info1 of
                    Some u \<Rightarrow> u
                  | None \<Rightarrow> (case info_original_url info1 of None \<Rightarrow> [] | Some u \<Rightarrow> u)),
               duration = info_duration info1,
               requester_id = rid\<rparr>)"

section \<open>Voice session: \<open>ensure_voice\<close>\<close>

text \<open>The result is the exception of the failed \<open>assert\<close>, or the returned value: the voice
  client, or \<open>None\<close> when the requester is in no voice channel.\<close>

definition in_no_channel :: "interaction \<Rightarrow> bool" where
  "in_no_channel i = (user_voice i = None \<or> user_voice i = Some None)"

definition ensure_voice :: "interaction \<Rightarrow> world \<Rightarrow> (exn + vc_ref option) \<times> world" where
  "ensure_voice i w =
     (case guild i of
        None \<Rightarrow> (Inl AssertionError, w)
      | Some gid \<Rightarrow>
          (case user_voice i of
             None \<Rightarrow> (Inr None, send NeedVoiceChannel w)
           | Some None \<Rightarrow> (Inr None, send NeedVoiceChannel w)
           | Some (Some target_channel) \<Rightarrow>
               (let (state, w1) = get_music_state gid w in
                case live_client w1 (voice_client state) of
                  None \<Rightarrow>
                    (let (vc, w2) = connect target_channel w1 in
                     (Inr (Some vc), upd_state gid (\<lambda>s. s\<lparr>voice_client := Some vc\<rparr>) w2))
                | Some vc \<Rightarrow>
                    if vc_channel (clients w1 vc) \<noteq> target_channel
                    then (Inr (Some vc), move_to vc target_channel w1)
                    else (Inr (Some vc), w1))))"

section \<open>Commands\<close>

text \<open>A coroutine runs on the event loop without interruption between two \<open>await\<close>s.
  Each command is one step of the model, from the state it is given to the state it
  ends in; the calls into the chat platform and the voice library that it awaits are
  taken to complete at once. \<open>interaction.response.defer\<close> has no effect on the state
  and is left out.\<close>

definition join :: "interaction \<Rightarrow> world \<Rightarrow> outcome \<times> world" where
  "join i w =
     (case guild i of
        None \<Rightarrow> (Returned, w)
      | Some gid \<Rightarrow>
          (let (state, w1) = get_music_state gid w in
           case user_voice i of
             None \<Rightarrow> (Returned, send NeedVoiceChannel w1)
           | Some None \<Rightarrow> (Returned, send NeedVoiceChannel w1)
           | Some (Some ch) \<Rightarrow>
               (case live_client w1 (voice_client state) of
                  None \<Rightarrow>
                    (let (vc, w2) = connect ch w1 in
                     (Returned,
                      send (Joined ch) (upd_state gid (\<lambda>s. s\<lparr>voice_client := Some vc\<rparr>) w2)))
                | Some vc \<Rightarrow> (Returned, send (Moved ch) (move_to vc ch w1)))))"

definition leave :: "interaction \<Rightarrow> world \<Rightarrow> outcome \<times> world" where
  "leave i w =
     (case guild i of
        None \<Rightarrow> (Returned, w)
      | Some gid \<Rightarrow>
          (let (state, w1) = get_music_state gid w in
           case live_client w1 (voice_client state) of
             None \<Rightarrow> (Returned, send NotInVoice w1)
           | Some vc \<Rightarrow>
               (let w2 = upd_state gid (\<lambda>s. s\<lparr>queue := []\<rparr>) w1;
                    w3 = upd_state gid (\<lambda>s. s\<lparr>now_playing := None\<rparr>) w2;
                    w4 = vc_disconnect vc w3;
                    w5 = upd_state gid (\<lambda>s. s\<lparr>voice_client := None\<rparr>) w4
                in (Returned, send LeftAndCleared w5))))"

definition falsy :: "string option \<Rightarrow> bool" where
  "falsy u = (u = None \<or> u = Some [])"

definition play ::
  "(string \<Rightarrow> exn + info option) \<Rightarrow> (string option \<Rightarrow> bool) \<Rightarrow>
   interaction \<Rightarrow> string \<Rightarrow> world \<Rightarrow> outcome \<times> world" where
  "play extract_info source_ok i query w =
     (case guild i of
        None \<Rightarrow> (Returned, w)
      | Some gid \<Rightarrow>
          (let (state, w1) = get_music_state gid w in
           case ensure_voice i w1 of
             (Inl e, w2) \<Rightarrow> (Raised e, w2)
           | (Inr None, w2) \<Rightarrow> (Returned, w2)
           | (Inr (Some vc), w2) \<Rightarrow>
               (let (info, w3) = ytdlp_extract extract_info query w2 in
                case info of
                  None \<Rightarrow> (Returned, send NotFound w3)
                | Some info1 \<Rightarrow>
                    (case build_track_from_info info1 (user_id i) of
                       Inl e \<Rightarrow> (Raised e, w3)
                     | Inr track \<Rightarrow>
                         if falsy (stream_url track) then (Returned, send NoStream w3)
                         else
                           (let w4 = upd_state gid (\<lambda>s. s\<lparr>queue := queue s @ [track]\<rparr>) w3 in
                            if \<not> vc_playing (clients w4 vc) \<and> \<not> vc_paused (clients w4 vc)
                            then start_playback source_ok gid
                                   (send (PlayingNow (title track)) w4)
                            else (Returned, send (AddedToQueue (title track)) w4))))))"

definition skip :: "interaction \<Rightarrow> world \<Rightarrow> outcome \<times> world" where
  "skip i w =
     (case guild i of
        None \<Rightarrow> (Returned, w)
      | Some gid \<Rightarrow>
          (let (state, w1) = get_music_state gid w in
           case live_client w1 (voice_client state) of
             None \<Rightarrow> (Returned, send NotInVoice w1)
           | Some vc \<Rightarrow>
               if \<not> vc_playing (clients w1 vc) \<and> \<not> vc_paused (clients w1 vc)
               then (Returned, send NothingPlayingNow w1)
               else (Returned, send Skipped (vc_stop vc w1))))"

definition pause :: "interaction \<Rightarrow> world \<Rightarrow> outcome \<times> world" where
  "pause i w =
     (case guild i of
        None \<Rightarrow> (Returned, w)
      | Some gid \<Rightarrow>
          (let (state, w1) = get_music_state gid w in
           case live_client w1 (voice_client state) of
             None \<Rightarrow> (Returned, send NotInVoice w1)
           | Some vc \<Rightarrow>
               if \<not> vc_playing (clients w1 vc)
               then (Returned, send NothingToPause w1)
               else (Returned, send Paused (vc_pause vc w1))))"

definition resume :: "interaction \<Rightarrow> world \<Rightarrow> outcome \<times> world" where
  "resume i w =
     (case guild i of
        None \<Rightarrow> (Returned, w)
      | Some gid \<Rightarrow>
          (let (state, w1) = get_music_state gid w in
           case live_client w1 (voice_client state) of
             None \<Rightarrow> (Returned, send NotInVoice w1)
           | Some vc \<Rightarrow>
               if \<not> vc_paused (clients w1 vc)
               then (Returned, send NotPaused w1)
               else (Returned, send Resumed (vc_resume vc w1))))"

definition stop :: "interaction \<Rightarrow> world \<Rightarrow> outcome \<times> world" where
  "stop i w =
     (case guild i of
        None \<Rightarrow> (Returned, w)
      | Some gid \<Rightarrow>
          (let (state, w1) = get_music_state gid w in
           case live_client w1 (voice_client state) of
             None \<Rightarrow> (Returned, send NotInVoice w1)
           | Some vc \<Rightarrow>
               (let w2 = upd_state gid (\<lambda>s. s\<lparr>queue := []\<rparr>) w1;
                    w3 = upd_state gid (\<lambda>s. s\<lparr>now_playing := None\<rparr>) w2;
                    w4 = (if vc_playing (clients w3 vc) \<or> vc_paused (clients w3 vc)
                          then vc_stop vc w3 else w3)
                in (Returned, send StoppedAndCleared w4))))"

section \<open>Reporting: \<open>nowplaying\<close> and \<open>queue\<close>\<close>

text \<open>The format \<open>{n:02d}\<close> of Python: decimal digits, padded with zeros to two
  characters, the sign first.\<close>

definition digit_char :: "nat \<Rightarrow> char" where
  "digit_char d = ''0123456789'' ! d"

fun decimal :: "nat \<Rightarrow> string" where
  "decimal n = (if n < 10 then [digit_char n] else decimal (n div 10) @ [digit_char (n mod 10)])"

definition fmt02d :: "int \<Rightarrow> string" where
  "fmt02d n =
     (if n < 0 then CHR ''-'' # decimal (nat (- n))
      else (let d = decimal (nat n) in replicate (2 - length d) CHR ''0'' @ d))"

text \<open>\<open>minutes, seconds = divmod(track.duration, 60)\<close> and the f-string.\<close>

definition mm_ss :: "int \<Rightarrow> string" where
  "mm_ss d = fmt02d (d div 60) @ '':'' @ fmt02d (d mod 60)"

text \<open>Lines 429 to 432: the test is \<open>track.duration is not None\<close>.\<close>

definition duration_str :: "track \<Rightarrow> string" where
  "duration_str track =
     (case duration track of None \<Rightarrow> ''desconhecida'' | Some d \<Rightarrow> mm_ss d)"

text \<open>Lines 455 to 459: the test is the truth value of \<open>track.duration\<close>.\<close>

definition dur :: "track \<Rightarrow> string" where
  "dur track =
     (case duration track of
        None \<Rightarrow> ''??:??''
      | Some d \<Rightarrow> if d \<noteq> 0 then mm_ss d else ''??:??'')"

definition now_playing_cmd :: "interaction \<Rightarrow> world \<Rightarrow> outcome \<times> world" where
  "now_playing_cmd i w =
     (case guild i of
        None \<Rightarrow> (Returned, w)
      | Some gid \<Rightarrow>
          (let (state, w1) = get_music_state gid w in
           case now_playing state of
             None \<Rightarrow> (Returned, send NoCurrentTrack w1)
           | Some track \<Rightarrow>
               (Returned,
                send (NowPlayingDesc (title track) (duration_str track) (webpage_url track)) w1)))"

definition queue_cmd :: "interaction \<Rightarrow> world \<Rightarrow> outcome \<times> world" where
  "queue_cmd i w =
     (case guild i of
        None \<Rightarrow> (Returned, w)
      | Some gid \<Rightarrow>
          (let (state, w1) = get_music_state gid w in
           if queue state = [] then (Returned, send QueueEmpty w1)
           else
             (Returned,
              send (QueueListing
                     (map (\<lambda>(idx, track). (fmt02d (int idx), title track, dur track))
                          (enumerate 1 (take 10 (queue state))))) w1)))"

section \<open>Runs of the program\<close>

text \<open>The track that lines 297 to 312 of \<open>play\<close> hand to the queue for a query, if any:
  the lookup returned a dictionary, the track was built, its stream reference is usable.\<close>

definition resolve_track ::
  "(string \<Rightarrow> exn + info option) \<Rightarrow> interaction \<Rightarrow> string \<Rightarrow> track option" where
  "resolve_track extract_info i query =
     (case extract_info query of
        Inl e \<Rightarrow> None
      | Inr None \<Rightarrow> None
      | Inr (Some info1) \<Rightarrow>
          (case build_track_from_info info1 (user_id i) of
             Inl e \<Rightarrow> None
           | Inr track \<Rightarrow> if falsy (stream_url track) then None else Some track))"

text \<open>A sequence of \<open>play\<close> requests, each run to its end before the next.\<close>

definition plays ::
  "(string \<Rightarrow> exn + info option) \<Rightarrow> (string option \<Rightarrow> bool) \<Rightarrow>
   (interaction \<times> string) list \<Rightarrow> world \<Rightarrow> world" where
  "plays extract_info source_ok reqs w =
     fold (\<lambda>(i, query) w'. snd (play extract_info source_ok i query w')) reqs w"

text \<open>A completion signal: the engine of the client ends its track and calls
  \<open>after_playback\<close>, whose arguments are the title of that track and whether the engine
  reports an error.\<close>

definition completion ::
  "(string option \<Rightarrow> bool) \<Rightarrow> guild_id \<Rightarrow> vc_ref \<Rightarrow> string \<times> bool \<Rightarrow> world \<Rightarrow> world" where
  "completion source_ok gid vc sig w =
     snd (after_playback source_ok gid (fst sig) (snd sig) (engine_finished vc w))"

definition completions ::
  "(string option \<Rightarrow> bool) \<Rightarrow> guild_id \<Rightarrow> vc_ref \<Rightarrow> (string \<times> bool) list \<Rightarrow>
   world \<Rightarrow> world" where
  "completions source_ok gid vc sigs w = fold (completion source_ok gid vc) sigs w"

section \<open>Sample data\<close>

definition song :: "string \<Rightarrow> int option \<Rightarrow> track" where
  "song name secs =
     \<lparr>title = name, stream_url = Some (''https://cdn.example/'' @ name),
      webpage_url = ''https://video.example/'' @ name, duration = secs, requester_id = 7\<rparr>"

text \<open>Guild 2 after its voice connection dropped: a track current, two queued, and the
  stored client 0 not connected.\<close>

definition lost_world :: world where
  "lost_world =
     initial_world\<lparr>music_states :=
       [2 \<mapsto> \<lparr>queue = [song ''b'' (Some 200), song ''c'' None],
               now_playing = Some (song ''a'' (Some 100)), voice_client = Some 0\<rparr>]\<rparr>"

text \<open>Guild 2 with a track of duration zero both current and queued (requested twice).\<close>

definition zero_world :: world where
  "zero_world =
     initial_world\<lparr>music_states :=
       [2 \<mapsto> \<lparr>queue = [song ''z'' (Some 0)],
               now_playing = Some (song ''z'' (Some 0)), voice_client = None\<rparr>]\<rparr>"

text \<open>Guild 2 with a live session: client 0, connected to channel 3.\<close>

definition session_world :: "track list \<Rightarrow> track option \<Rightarrow> bool \<Rightarrow> bool \<Rightarrow> world" where
  "session_world q np playing paused =
     initial_world
       \<lparr>music_states := [2 \<mapsto> \<lparr>queue = q, now_playing = np, voice_client = Some 0\<rparr>],
        clients := (clients initial_world)
          (0 := \<lparr>vc_connected = True, vc_channel = 3, vc_playing = playing,
                 vc_paused = paused\<rparr>),
        next_client := 1\<rparr>"

text \<open>A resolver: two queries fail, one has no stream reference, one is an empty
  collection, every other query resolves to the track of that name.\<close>

definition sample_extract :: "string \<Rightarrow> exn + info option" where
  "sample_extract q =
     (if q = ''missing'' then Inl ExtractError
      else if q = ''nothing'' then Inr None
      else if q = ''nostream'' then Inr (Some (Info None (Some q) None None None None))
      else if q = ''empty'' then Inr (Some (Info (Some []) None None None None None))
      else Inr (Some (Info None (Some q) (Some (''https://cdn.example/'' @ q))
                       (Some (''https://video.example/'' @ q)) None (Some 180))))"

text \<open>An engine that rejects two stream references.\<close>

definition sample_source_ok :: "string option \<Rightarrow> bool" where
  "sample_source_ok u =
     (u \<noteq> Some ''https://cdn.example/bad'' \<and> u \<noteq> Some ''https://cdn.example/worse'')"

text \<open>Guild 2 while its engine plays \<open>a\<close> with \<open>b\<close> queued, and after the engine has
  ended \<open>a\<close> with nothing queued.\<close>

definition playing_world :: world where
  "playing_world = session_world [song ''b'' None] (Some (song ''a'' None)) True False"

definition drained_world :: world where
  "drained_world = session_world [] (Some (song ''a'' None)) False False"

definition member_of :: "guild_id \<Rightarrow> channel option option \<Rightarrow> interaction" where
  "member_of gid v = \<lparr>guild = Some gid, user_id = 7, user_voice = v\<rparr>"

definition listener :: interaction where
  "listener = member_of 2 (Some (Some 3))"

text \<open>Guild 2 suspended in the sleep of \<open>start_playback\<close>, which holds client 0; and two
  runs during that sleep: a \<open>play\<close> followed by a \<open>pause\<close>, and a \<open>leave\<close> followed by a
  \<open>play\<close>.\<close>

definition asleep_world :: world where
  "asleep_world = snd (start_playback sample_source_ok 2 drained_world)"

definition paused_in_window :: world where
  "paused_in_window =
     snd (pause listener (snd (play sample_extract sample_source_ok listener ''b'' asleep_world)))"

definition rejoined_in_window :: world where
  "rejoined_in_window =
     snd (play sample_extract sample_source_ok listener ''b'' (snd (leave listener asleep_world)))"

section \<open>Basic facts\<close>

lemmas world_ops = upd_state_def send_def print_line_def upd_client_def get_music_state_def
  state_of_def new_state_def live_client_def

declare start_playback.simps [simp del]

lemma get_music_state_Some:
  "music_states w gid = Some st \<Longrightarrow> get_music_state gid w = (st, w)"
  by (simp add: get_music_state_def)

lemma state_of_Some: "music_states w gid = Some st \<Longrightarrow> state_of w gid = st"
  by (simp add: state_of_def get_music_state_def)

lemma state_reset_queue:
  "queue st = [] \<Longrightarrow> st\<lparr>now_playing := x\<rparr> = st\<lparr>queue := [], now_playing := x\<rparr>"
  by (cases st) simp

lemma state_of_send [simp]: "state_of (send m w) g = state_of w g"
  by (simp add: state_of_def send_def get_music_state_def split: option.splits)

lemma state_of_print_line [simp]: "state_of (print_line l w) g = state_of w g"
  by (simp add: state_of_def print_line_def get_music_state_def split: option.splits)

lemma clients_send [simp]: "clients (send m w) = clients w"
  by (simp add: send_def)

lemma clients_print_line [simp]: "clients (print_line l w) = clients w"
  by (simp add: print_line_def)

lemma state_of_get_music_state [simp]:
  "state_of (snd (get_music_state gid w)) g = state_of w g"
  by (simp add: state_of_def get_music_state_def split: option.splits)

lemma clients_get_music_state [simp]: "clients (snd (get_music_state gid w)) = clients w"
  by (simp add: get_music_state_def split: option.splits)

subsection \<open>\<open>start_playback\<close> on a live session with an idle engine\<close>

text \<open>The queue is \<open>bad @ rest\<close>, the engine rejects every track of \<open>bad\<close> and accepts the
  head of \<open>rest\<close>, if there is one.\<close>

lemma start_playback_live:
  assumes "music_states w gid = Some st" "voice_client st = Some vc"
    "vc_connected (clients w vc)" "\<not> vc_playing (clients w vc)"
    "queue st = bad @ rest" "\<forall>t\<in>set bad. \<not> source_ok (stream_url t)"
    "rest = [] \<or> source_ok (stream_url (hd rest))"
  shows "start_playback source_ok gid w =
    (case rest of
       [] \<Rightarrow> (Sleeping 5 vc,
          w\<lparr>music_states := (music_states w)(gid \<mapsto> st\<lparr>queue := [], now_playing := None\<rparr>),
            printed := printed w @ map (\<lambda>t. FfmpegFailed (title t)) bad\<rparr>)
     | t # rest' \<Rightarrow> (Returned,
          w\<lparr>music_states :=
              (music_states w)(gid \<mapsto> st\<lparr>queue := rest', now_playing := Some t\<rparr>),
            clients :=
              (clients w)(vc := (clients w vc)\<lparr>vc_playing := True, vc_paused := False\<rparr>),
            printed := printed w @ map (\<lambda>t. FfmpegFailed (title t)) bad
                 @ [NowPlayingLog gid (title t)]\<rparr>))"
  using assms
proof (induction bad arbitrary: w st)
  case Nil
  then show ?case
    by (cases rest)
       (simp_all add: start_playback.simps [of source_ok gid w] get_music_state_Some
         live_client_def upd_state_def state_reset_queue [symmetric] vc_play_def upd_client_def
         print_line_def)
next
  case (Cons b bad)
  let ?st' = "st\<lparr>queue := bad @ rest, now_playing := Some b\<rparr>"
  let ?w' = "print_line (FfmpegFailed (title b))
     (upd_state gid (\<lambda>s. s\<lparr>queue := bad @ rest, now_playing := Some b\<rparr>) w)"
  have 1: "music_states ?w' gid = Some ?st'"
    using Cons.prems by (simp add: print_line_def upd_state_def)
  have 2: "queue ?st' = bad @ rest" by simp
  have 3: "voice_client ?st' = Some vc" using Cons.prems by simp
  have 4: "vc_connected (clients ?w' vc)" "\<not> vc_playing (clients ?w' vc)"
    using Cons.prems by (simp_all add: print_line_def upd_state_def)
  have 5: "\<forall>t\<in>set bad. \<not> source_ok (stream_url t)" using Cons.prems by simp
  have step: "start_playback source_ok gid w = start_playback source_ok gid ?w'"
    using Cons.prems
    by (simp add: start_playback.simps [of source_ok gid w] get_music_state_Some
          live_client_def)
  show ?case
    unfolding step Cons.IH [OF 1 3 4 2 5 Cons.prems(7)]
    using Cons.prems
    by (cases rest) (simp_all add: print_line_def upd_state_def)
qed

subsection \<open>\<open>ensure_voice\<close> and \<open>play\<close>\<close>

lemma ensure_voice_live:
  assumes "guild i = Some gid" "user_voice i = Some (Some ch)"
    "music_states w gid = Some st" "voice_client st = Some vc" "vc_connected (clients w vc)"
  shows "ensure_voice i w = (Inr (Some vc), upd_client vc (\<lambda>c. c\<lparr>vc_channel := ch\<rparr>) w)"
proof -
  have "upd_client vc (\<lambda>c. c\<lparr>vc_channel := ch\<rparr>) w = w" if "vc_channel (clients w vc) = ch"
  proof -
    have "(clients w vc)\<lparr>vc_channel := ch\<rparr> = clients w vc"
      using that by (cases "clients w vc") simp
    then show ?thesis by (simp add: upd_client_def)
  qed
  then show ?thesis using assms
    by (simp add: ensure_voice_def get_music_state_Some live_client_def move_to_def)
qed

lemma ensure_voice_keeps_tracks:
  "queue (state_of (snd (ensure_voice i w)) g) = queue (state_of w g) \<and>
   now_playing (state_of (snd (ensure_voice i w)) g) = now_playing (state_of w g)"
  by (auto simp: ensure_voice_def world_ops connect_def move_to_def Let_def
      split: option.splits prod.splits)

lemma ensure_voice_starts_nothing:
  "vc_playing (clients (snd (ensure_voice i w)) vc) \<Longrightarrow> vc_playing (clients w vc)"
  by (auto simp: ensure_voice_def world_ops connect_def move_to_def Let_def
      split: option.splits prod.splits if_splits)

lemma ensure_voice_no_assert: "guild i = Some gid \<Longrightarrow> fst (ensure_voice i w) \<noteq> Inl e"
  by (auto simp: ensure_voice_def Let_def split: option.splits prod.splits)

lemma resolve_track_Some:
  "resolve_track extract_info i query = Some t \<Longrightarrow>
    \<exists>info1. extract_info query = Inr (Some info1) \<and>
       build_track_from_info info1 (user_id i) = Inr t \<and> \<not> falsy (stream_url t)"
  by (auto simp: resolve_track_def split: sum.splits option.splits if_splits)

lemma play_while_active:
  assumes "guild i = Some gid" "user_voice i = Some (Some ch)"
    "music_states w gid = Some st" "voice_client st = Some vc" "vc_connected (clients w vc)"
    "vc_playing (clients w vc) \<or> vc_paused (clients w vc)"
    "resolve_track extract_info i query = Some t"
  shows "play extract_info source_ok i query w =
    (Returned,
     w\<lparr>music_states := (music_states w)(gid \<mapsto> st\<lparr>queue := queue st @ [t]\<rparr>),
       clients := (clients w)(vc := (clients w vc)\<lparr>vc_channel := ch\<rparr>),
       sent := sent w @ [AddedToQueue (title t)]\<rparr>)"
proof -
  obtain info1 where r: "extract_info query = Inr (Some info1)"
    "build_track_from_info info1 (user_id i) = Inr t" "\<not> falsy (stream_url t)"
    using resolve_track_Some [OF assms(7)] by blast
  show ?thesis
    using assms(1-6) r
    by (auto simp add: play_def get_music_state_Some ensure_voice_live ytdlp_extract_def
          upd_client_def upd_state_def send_def)
qed

lemma play_while_idle:
  assumes "guild i = Some gid" "user_voice i = Some (Some ch)"
    "music_states w gid = Some st" "voice_client st = Some vc" "vc_connected (clients w vc)"
    "\<not> vc_playing (clients w vc)" "\<not> vc_paused (clients w vc)"
    "resolve_track extract_info i query = Some t"
  shows "play extract_info source_ok i query w =
    start_playback source_ok gid
     (w\<lparr>clients := (clients w)(vc := (clients w vc)\<lparr>vc_channel := ch\<rparr>),
       music_states := (music_states w)(gid \<mapsto> st\<lparr>queue := queue st @ [t]\<rparr>),
       sent := sent w @ [PlayingNow (title t)]\<rparr>)"
proof -
  obtain info1 where r: "extract_info query = Inr (Some info1)"
    "build_track_from_info info1 (user_id i) = Inr t" "\<not> falsy (stream_url t)"
    using resolve_track_Some [OF assms(8)] by blast
  show ?thesis
    using assms(1-7) r
    by (auto simp add: play_def get_music_state_Some ensure_voice_live ytdlp_extract_def
          upd_client_def upd_state_def send_def)
qed

text \<open>A \<open>play\<close> whose resolution fails ends after \<open>ensure_voice\<close>, having sent one message
  at most.\<close>

lemma play_resolution_failed:
  assumes "guild i = Some gid"
    and "(\<exists>e. extract_info query = Inl e) \<or> extract_info query = Inr None \<or>
         (\<exists>info1 t. extract_info query = Inr (Some info1) \<and>
            build_track_from_info info1 (user_id i) = Inr t \<and> falsy (stream_url t))"
  shows "\<exists>w'. play extract_info source_ok i query w = (Returned, w') \<and>
     state_of w' = state_of (snd (ensure_voice i (snd (get_music_state gid w)))) \<and>
     clients w' = clients (snd (ensure_voice i (snd (get_music_state gid w))))"
proof -
  obtain st w1 where g: "get_music_state gid w = (st, w1)" by (cases "get_music_state gid w")
  obtain r w2 where e: "ensure_voice i w1 = (r, w2)" by (cases "ensure_voice i w1")
  show ?thesis
  proof (cases r)
    case (Inl x)
    with e ensure_voice_no_assert [OF assms(1), of w1 x] show ?thesis by simp
  next
    case (Inr vco)
    show ?thesis
    proof (cases vco)
      case None
      with Inr e g assms(1) show ?thesis by (simp add: play_def)
    next
      case (Some vc)
      from assms(2) show ?thesis
      proof (elim disjE exE conjE)
        fix x assume "extract_info query = Inl x"
        with Some Inr e g assms(1) show ?thesis
          by (simp add: play_def ytdlp_extract_def fun_eq_iff)
      next
        assume "extract_info query = Inr None"
        with Some Inr e g assms(1) show ?thesis
          by (simp add: play_def ytdlp_extract_def fun_eq_iff)
      next
        fix info1 t
        assume "extract_info query = Inr (Some info1)"
          "build_track_from_info info1 (user_id i) = Inr t" "falsy (stream_url t)"
        with Some Inr e g assms(1) show ?thesis
          by (simp add: play_def ytdlp_extract_def fun_eq_iff)
      qed
    qed
  qed
qed

subsection \<open>\<open>stop\<close>, \<open>leave\<close>, the completion signal and the re-check after the sleep\<close>

lemma client_flags_off:
  "\<not> vc_playing c \<Longrightarrow> \<not> vc_paused c \<Longrightarrow> c\<lparr>vc_playing := False, vc_paused := False\<rparr> = c"
  by (cases c) simp

lemma stop_live:
  assumes "guild i = Some gid" "music_states w gid = Some st" "voice_client st = Some vc"
    "vc_connected (clients w vc)"
  shows "stop i w =
    (Returned,
     w\<lparr>music_states := (music_states w)(gid \<mapsto> st\<lparr>queue := [], now_playing := None\<rparr>),
       clients := (clients w)(vc := (clients w vc)\<lparr>vc_playing := False, vc_paused := False\<rparr>),
       sent := sent w @ [StoppedAndCleared]\<rparr>)"
proof (cases "vc_playing (clients w vc) \<or> vc_paused (clients w vc)")
  case True
  then show ?thesis using assms
    by (auto simp: stop_def get_music_state_Some live_client_def upd_state_def vc_stop_def
          upd_client_def send_def)
next
  case False
  then have "(clients w)(vc := (clients w vc)\<lparr>vc_playing := False, vc_paused := False\<rparr>) = clients w"
    by (simp add: client_flags_off)
  then show ?thesis using assms False
    by (simp add: stop_def get_music_state_Some live_client_def upd_state_def vc_stop_def
          upd_client_def send_def)
qed

lemma after_playback_empty:
  assumes "music_states w gid = Some st" "voice_client st = Some vc"
    "vc_connected (clients w vc)" "\<not> vc_playing (clients w vc)" "queue st = []"
  shows "after_playback source_ok gid tt err w =
    (Sleeping 5 vc,
     w\<lparr>music_states := (music_states w)(gid \<mapsto> st\<lparr>queue := [], now_playing := None\<rparr>),
       printed := printed w @ (if err then [PlaybackError tt] else [])\<rparr>)"
proof -
  let ?w1 = "if err then print_line (PlaybackError tt) w else w"
  have a: "music_states ?w1 gid = Some st" "vc_connected (clients ?w1 vc)"
    "\<not> vc_playing (clients ?w1 vc)"
    using assms by (simp_all add: print_line_def)
  have "start_playback source_ok gid ?w1 = (Sleeping 5 vc,
     ?w1\<lparr>music_states := (music_states ?w1)(gid \<mapsto> st\<lparr>queue := [], now_playing := None\<rparr>),
       printed := printed ?w1 @ map (\<lambda>t. FfmpegFailed (title t)) []\<rparr>)"
    using start_playback_live [OF a(1) assms(2) a(2,3), of "[]" "[]" source_ok] assms(5)
    by simp
  then show ?thesis
    by (simp add: after_playback_def print_line_def)
qed


lemma wake_closes:
  assumes "music_states w gid = Some st" "\<not> vc_playing (clients w vc)" "queue st = []"
  shows "start_playback_wake gid vc w =
    w\<lparr>clients := (clients w)(vc := (clients w vc)
          \<lparr>vc_connected := False, vc_playing := False, vc_paused := False\<rparr>),
      music_states := (music_states w)(gid \<mapsto> st\<lparr>voice_client := None\<rparr>)\<rparr>"
  using assms
  by (simp add: start_playback_wake_def vc_disconnect_def upd_client_def upd_state_def)

lemma wake_aborts:
  assumes "music_states w gid = Some st" "vc_playing (clients w vc) \<or> queue st \<noteq> []"
  shows "start_playback_wake gid vc w = w"
  using assms by (auto simp add: start_playback_wake_def)






lemma plays_Cons:
  "plays extract_info source_ok ((i, query) # reqs) w =
     plays extract_info source_ok reqs (snd (play extract_info source_ok i query w))"
  by (simp add: plays_def)

lemma completions_Cons:
  "completions source_ok gid vc (sig # sigs) w =
     completions source_ok gid vc sigs (completion source_ok gid vc sig w)"
  by (simp add: completions_def)

lemma plays_while_active:
  assumes "list_all2 (\<lambda>(i, query) t. guild i = Some gid \<and> \<not> in_no_channel i \<and>
              resolve_track extract_info i query = Some t) reqs ts"
    and "music_states w gid = Some st" "voice_client st = Some vc" "vc_connected (clients w vc)"
    "vc_playing (clients w vc) \<or> vc_paused (clients w vc)"
  shows "music_states (plays extract_info source_ok reqs w) gid
           = Some (st\<lparr>queue := queue st @ ts\<rparr>) \<and>
         vc_connected (clients (plays extract_info source_ok reqs w) vc) \<and>
         vc_playing (clients (plays extract_info source_ok reqs w) vc) = vc_playing (clients w vc) \<and>
         vc_paused (clients (plays extract_info source_ok reqs w) vc) = vc_paused (clients w vc)"
  using assms
proof (induction reqs ts arbitrary: w st rule: list_all2_induct)
  case Nil
  then show ?case by (simp add: plays_def)
next
  case (Cons r reqs t ts)
  obtain i query where r: "r = (i, query)" by (cases r)
  from Cons.hyps(1) r have h: "guild i = Some gid" "\<not> in_no_channel i"
    "resolve_track extract_info i query = Some t" by simp_all
  from h(2) obtain ch where ch: "user_voice i = Some (Some ch)"
    by (cases "user_voice i"; cases "the (user_voice i)"; simp add: in_no_channel_def)
  let ?w' = "w\<lparr>music_states := (music_states w)(gid \<mapsto> st\<lparr>queue := queue st @ [t]\<rparr>),
       clients := (clients w)(vc := (clients w vc)\<lparr>vc_channel := ch\<rparr>),
       sent := sent w @ [AddedToQueue (title t)]\<rparr>"
  let ?st' = "st\<lparr>queue := queue st @ [t]\<rparr>"
  have p: "snd (play extract_info source_ok i query w) = ?w'"
    using play_while_active [OF h(1) ch Cons.prems(1-4) h(3), of source_ok] by simp
  have 1: "music_states ?w' gid = Some ?st'" "voice_client ?st' = Some vc"
    "vc_connected (clients ?w' vc)" "vc_playing (clients ?w' vc) \<or> vc_paused (clients ?w' vc)"
    using Cons.prems by simp_all
  show ?case
    unfolding r plays_Cons p
    using Cons.IH [OF 1] by simp
qed

lemma completion_next:
  assumes "music_states w gid = Some st" "voice_client st = Some vc" "vc_connected (clients w vc)"
    "queue st = bad @ t # rest" "\<forall>b\<in>set bad. \<not> source_ok (stream_url b)"
    "source_ok (stream_url t)"
  shows "music_states (completion source_ok gid vc sig w) gid
           = Some (st\<lparr>queue := rest, now_playing := Some t\<rparr>) \<and>
         vc_connected (clients (completion source_ok gid vc sig w) vc) \<and>
         vc_playing (clients (completion source_ok gid vc sig w) vc)"
proof -
  let ?w0 = "engine_finished vc w"
  let ?w1 = "if snd sig then print_line (PlaybackError (fst sig)) ?w0 else ?w0"
  have a: "music_states ?w1 gid = Some st" "vc_connected (clients ?w1 vc)"
    "\<not> vc_playing (clients ?w1 vc)"
    using assms(1,3) by (simp_all add: engine_finished_def upd_client_def print_line_def)
  have b: "t # rest = [] \<or> source_ok (stream_url (hd (t # rest)))"
    using assms(6) by simp
  have sp: "start_playback source_ok gid ?w1 = (case t # rest of
       [] \<Rightarrow> (Sleeping 5 vc,
          ?w1\<lparr>music_states := (music_states ?w1)(gid \<mapsto> st\<lparr>queue := [], now_playing := None\<rparr>),
            printed := printed ?w1 @ map (\<lambda>t. FfmpegFailed (title t)) bad\<rparr>)
     | t # rest' \<Rightarrow> (Returned,
          ?w1\<lparr>music_states :=
              (music_states ?w1)(gid \<mapsto> st\<lparr>queue := rest', now_playing := Some t\<rparr>),
            clients :=
              (clients ?w1)(vc := (clients ?w1 vc)\<lparr>vc_playing := True, vc_paused := False\<rparr>),
            printed := printed ?w1 @ map (\<lambda>t. FfmpegFailed (title t)) bad
                 @ [NowPlayingLog gid (title t)]\<rparr>))"
    by (rule start_playback_live [OF a(1) assms(2) a(2,3) assms(4,5) b])
  have c: "completion source_ok gid vc sig w = snd (start_playback source_ok gid ?w1)"
    by (cases "start_playback source_ok gid ?w1")
       (simp add: completion_def after_playback_def sp)
  show ?thesis
    unfolding c sp using a(2) by simp
qed


lemma filter_nonempty_split:
  assumes "filter P q \<noteq> []"
  shows "\<exists>bad t rest. q = bad @ t # rest \<and> (\<forall>b\<in>set bad. \<not> P b) \<and> P t \<and>
           filter P q = t # filter P rest"
proof -
  let ?bad = "takeWhile (\<lambda>x. \<not> P x) q" and ?r = "dropWhile (\<lambda>x. \<not> P x) q"
  have "?r \<noteq> []"
  proof
    assume "?r = []"
    then have "\<forall>x\<in>set q. \<not> P x" by (simp add: dropWhile_eq_Nil_conv)
    then have "filter P q = []" by (simp add: filter_empty_conv)
    with assms show False by simp
  qed
  then obtain t rest where r: "?r = t # rest" by (cases ?r) auto
  have q: "q = ?bad @ t # rest" using takeWhile_dropWhile_id [of "\<lambda>x. \<not> P x" q] r by simp
  have t: "P t" using hd_dropWhile [of "\<lambda>x. \<not> P x" q] r by simp
  have b: "\<forall>b\<in>set ?bad. \<not> P b" by (auto dest: set_takeWhileD)
  have "filter P ?bad = []" using b by (simp add: filter_empty_conv)
  then have "filter P q = t # filter P rest"
    using t by (subst q) simp
  with q b t show ?thesis by blast
qed

lemma completions_in_order:
  assumes "music_states w gid = Some st" "voice_client st = Some vc" "vc_connected (clients w vc)"
    "k < length (filter (\<lambda>t. source_ok (stream_url t)) (queue st))" "length sigs = Suc k"
  shows "now_playing (state_of (completions source_ok gid vc sigs w) gid)
           = Some (filter (\<lambda>t. source_ok (stream_url t)) (queue st) ! k)"
  using assms
proof (induction sigs arbitrary: w st k)
  case Nil
  then show ?case by simp
next
  case (Cons sig sigs)
  let ?P = "\<lambda>t. source_ok (stream_url t)"
  from Cons.prems(4) have "filter ?P (queue st) \<noteq> []" by auto
  then obtain bad t rest where d: "queue st = bad @ t # rest" "\<forall>b\<in>set bad. \<not> ?P b" "?P t"
    "filter ?P (queue st) = t # filter ?P rest"
    using filter_nonempty_split [of ?P "queue st"] by blast
  let ?w' = "completion source_ok gid vc sig w"
  let ?st' = "st\<lparr>queue := rest, now_playing := Some t\<rparr>"
  have n: "music_states ?w' gid = Some ?st'" "vc_connected (clients ?w' vc)"
    using completion_next [OF Cons.prems(1-3) d(1,2,3), of sig] by simp_all
  have v: "voice_client ?st' = Some vc" using Cons.prems(2) by simp
  show ?case
  proof (cases k)
    case 0
    with Cons.prems(5) have "sigs = []" by simp
    then show ?thesis using n(1) 0 d(4)
      by (simp add: completions_def state_of_Some)
  next
    case (Suc k')
    have 1: "k' < length (filter ?P (queue ?st'))" using Cons.prems(4) Suc d(4) by simp
    have 2: "length sigs = Suc k'" using Cons.prems(5) Suc by simp
    show ?thesis
      unfolding completions_Cons Cons.IH [OF n(1) v n(2) 1 2]
      using Suc d(4) by simp
  qed
qed

section \<open>Connection loss invalidates the queue\<close>

text \<open>C4. When \<open>start_playback\<close> runs and the stored voice client is absent or not
  connected, it returns at once; the state of the guild has \<open>now_playing = None\<close> and an
  empty queue, and nothing else in the process changes: no client is touched, so the
  engine is not started, and nothing is sent or printed.\<close>

theorem start_playback_without_session:
  assumes "live_client w (voice_client (state_of w gid)) = None"
  shows "start_playback source_ok gid w =
     (Returned,
      w\<lparr>music_states :=
          (music_states w)(gid \<mapsto> (state_of w gid)\<lparr>now_playing := None, queue := []\<rparr>)\<rparr>)"
  using assms by (auto simp: start_playback.simps world_ops split: option.splits)

theorem start_playback_without_session_witness:
  "live_client lost_world (voice_client (state_of lost_world 2)) = None \<and>
   fst (start_playback (\<lambda>_. True) 2 lost_world) = Returned \<and>
   state_of (snd (start_playback (\<lambda>_. True) 2 lost_world)) 2 =
     \<lparr>queue = [], now_playing = None, voice_client = Some 0\<rparr> \<and>
   clients (snd (start_playback (\<lambda>_. True) 2 lost_world)) = clients lost_world"
proof -
  have h: "live_client lost_world (voice_client (state_of lost_world 2)) = None"
    by (simp add: lost_world_def initial_world_def world_ops)
  show ?thesis
    using h start_playback_without_session [OF h, of "\<lambda>_. True"]
    by (simp add: lost_world_def initial_world_def world_ops)
qed

section \<open>The empty collection at the resolver boundary\<close>

text \<open>C9. A resolver result with an \<open>entries\<close> key holding an empty list makes
  \<open>build_track_from_info\<close> fail with \<open>IndexError\<close>; in \<open>play\<close> the exception escapes the
  command: no message (so no resolution-failed message either) is sent, and the queue is
  as before.\<close>

theorem empty_entries_index_error:
  assumes "info_entries info0 = Some []"
  shows "build_track_from_info info0 rid = Inl IndexError \<and>
    (guild i = Some gid \<and> \<not> in_no_channel i \<and> extract_info query = Inr (Some info0) \<longrightarrow>
       fst (play extract_info source_ok i query w) = Raised IndexError \<and>
       sent (snd (play extract_info source_ok i query w)) = sent w \<and>
       queue (state_of (snd (play extract_info source_ok i query w)) gid)
         = queue (state_of w gid))"
proof -
  have b: "build_track_from_info info0 r = Inl IndexError" for r
    using assms by (simp add: build_track_from_info_def first_entry_def)
  show ?thesis
    by (auto simp: b play_def ensure_voice_def ytdlp_extract_def in_no_channel_def world_ops
          connect_def move_to_def Let_def
        split: option.splits prod.splits sum.splits if_splits)
qed

theorem empty_entries_index_error_witness:
  "info_entries (Info (Some []) None None None None None) = Some [] \<and>
   build_track_from_info (Info (Some []) None None None None None) 7 = Inl IndexError \<and>
   fst (play (\<lambda>_. Inr (Some (Info (Some []) None None None None None))) (\<lambda>_. True)
          (member_of 2 (Some (Some 3))) ''nothing'' initial_world) = Raised IndexError \<and>
   sent (snd (play (\<lambda>_. Inr (Some (Info (Some []) None None None None None))) (\<lambda>_. True)
          (member_of 2 (Some (Some 3))) ''nothing'' initial_world)) = []"
  using empty_entries_index_error [of "Info (Some []) None None None None None" 7
      "member_of 2 (Some (Some 3))" 2
      "\<lambda>_. Inr (Some (Info (Some []) None None None None None))" "''nothing''"
      "\<lambda>_. True" initial_world]
  by (simp add: member_of_def in_no_channel_def initial_world_def)

section \<open>Zero durations in the two reports\<close>

text \<open>C10. For a track whose duration is 0, \<open>nowplaying\<close> reports the duration
  \<open>00:00\<close> (it tests \<open>is not None\<close>) and \<open>queue\<close> reports \<open>??:??\<close> (it tests the truth
  value): the strings computed differ, and so do the messages the two commands send.\<close>

theorem zero_duration_reports_disagree:
  assumes "duration t = Some 0"
  shows "duration_str t = ''00:00'' \<and> dur t = ''??:??'' \<and>
    (guild i = Some gid \<and> now_playing (state_of w gid) = Some t \<longrightarrow>
       sent (snd (now_playing_cmd i w))
         = sent w @ [NowPlayingDesc (title t) ''00:00'' (webpage_url t)]) \<and>
    (guild i = Some gid \<and> queue (state_of w gid) = [t] \<longrightarrow>
       sent (snd (queue_cmd i w)) = sent w @ [QueueListing [(''01'', title t, ''??:??'')]])"
proof -
  have d: "duration_str t = ''00:00''"
    using assms by (simp add: duration_str_def mm_ss_def fmt02d_def digit_char_def)
  have q: "dur t = ''??:??''"
    using assms by (simp add: dur_def)
  have one: "fmt02d 1 = ''01''"
    by (simp add: fmt02d_def digit_char_def)
  show ?thesis
    by (auto simp: d q one now_playing_cmd_def queue_cmd_def world_ops enumerate_eq_zip
        split: option.splits)
qed

theorem zero_duration_reports_disagree_witness:
  "duration (song ''z'' (Some 0)) = Some 0 \<and>
   sent (snd (now_playing_cmd (member_of 2 None) zero_world))
     = [NowPlayingDesc ''z'' ''00:00'' ''https://video.example/z''] \<and>
   sent (snd (queue_cmd (member_of 2 None) zero_world))
     = [QueueListing [(''01'', ''z'', ''??:??'')]]"
  using zero_duration_reports_disagree [of "song ''z'' (Some 0)" "member_of 2 None" 2 zero_world]
  by (simp add: song_def member_of_def zero_world_def initial_world_def world_ops)

section \<open>Engine start failures\<close>

text \<open>C5. \<open>start_playback\<close> on a live session with an idle engine, the queue being
  \<open>bad @ rest\<close> where the engine rejects the stream reference of every track of \<open>bad\<close>
  and accepts that of the head of \<open>rest\<close> (if any). Every track of \<open>bad\<close> is taken from
  the queue and logged as failed once, in order, and is not in the queue afterwards; no
  message is sent to any user. If \<open>rest\<close> is empty the queue ends empty with no current
  track, no client is touched and the coroutine enters its sleep; otherwise the head of
  \<open>rest\<close> is the current track, the engine plays, and the tail of \<open>rest\<close> is the queue.\<close>

theorem engine_start_failures_are_skipped:
  assumes "music_states w gid = Some st" "voice_client st = Some vc"
    "vc_connected (clients w vc)" "\<not> vc_playing (clients w vc)"
    "queue st = bad @ rest" "\<forall>t\<in>set bad. \<not> source_ok (stream_url t)"
    "rest = [] \<or> source_ok (stream_url (hd rest))"
  shows "sent (snd (start_playback source_ok gid w)) = sent w \<and>
     printed (snd (start_playback source_ok gid w)) =
       printed w @ map (\<lambda>t. FfmpegFailed (title t)) bad @
       (case rest of [] \<Rightarrow> [] | t # rest' \<Rightarrow> [NowPlayingLog gid (title t)]) \<and>
     (case rest of
        [] \<Rightarrow>
          fst (start_playback source_ok gid w) = Sleeping 5 vc \<and>
          state_of (snd (start_playback source_ok gid w)) gid
            = st\<lparr>queue := [], now_playing := None\<rparr> \<and>
          clients (snd (start_playback source_ok gid w)) = clients w
      | t # rest' \<Rightarrow>
          fst (start_playback source_ok gid w) = Returned \<and>
          state_of (snd (start_playback source_ok gid w)) gid
            = st\<lparr>queue := rest', now_playing := Some t\<rparr> \<and>
          vc_playing (clients (snd (start_playback source_ok gid w)) vc))"
  unfolding start_playback_live [OF assms]
  by (cases rest) (simp_all add: state_of_Some)

theorem engine_start_failures_are_skipped_witness:
  "music_states (session_world [song ''bad'' None, song ''worse'' (Some 5),
       song ''good'' (Some 9), song ''next'' None] None False False) 2
     = Some \<lparr>queue = [song ''bad'' None, song ''worse'' (Some 5), song ''good'' (Some 9),
                      song ''next'' None],
             now_playing = None, voice_client = Some 0\<rparr> \<and>
   \<not> sample_source_ok (stream_url (song ''bad'' None)) \<and>
   \<not> sample_source_ok (stream_url (song ''worse'' (Some 5))) \<and>
   sample_source_ok (stream_url (song ''good'' (Some 9))) \<and>
   fst (start_playback sample_source_ok 2
     (session_world [song ''bad'' None, song ''worse'' (Some 5), song ''good'' (Some 9),
        song ''next'' None] None False False)) = Returned \<and>
   state_of (snd (start_playback sample_source_ok 2
     (session_world [song ''bad'' None, song ''worse'' (Some 5), song ''good'' (Some 9),
        song ''next'' None] None False False))) 2
     = \<lparr>queue = [song ''next'' None], now_playing = Some (song ''good'' (Some 9)),
        voice_client = Some 0\<rparr> \<and>
   sent (snd (start_playback sample_source_ok 2
     (session_world [song ''bad'' None, song ''worse'' (Some 5), song ''good'' (Some 9),
        song ''next'' None] None False False))) = []"
proof -
  let ?q = "[song ''bad'' None, song ''worse'' (Some 5), song ''good'' (Some 9),
     song ''next'' None]"
  let ?w = "session_world ?q None False False"
  let ?st = "\<lparr>queue = ?q, now_playing = None, voice_client = Some 0\<rparr>"
  have h1: "music_states ?w 2 = Some ?st"
    by (simp add: session_world_def)
  have h2: "voice_client ?st = Some 0" by simp
  have h3: "vc_connected (clients ?w 0)" "\<not> vc_playing (clients ?w 0)"
    by (simp_all add: session_world_def)
  have h5: "queue ?st = [song ''bad'' None, song ''worse'' (Some 5)]
     @ [song ''good'' (Some 9), song ''next'' None]" by simp
  have h6: "\<forall>t\<in>set [song ''bad'' None, song ''worse'' (Some 5)].
     \<not> sample_source_ok (stream_url t)"
    by (simp add: sample_source_ok_def song_def)
  have h7: "[song ''good'' (Some 9), song ''next'' None] = [] \<or>
     sample_source_ok (stream_url (hd [song ''good'' (Some 9), song ''next'' None]))"
    by (simp add: sample_source_ok_def song_def)
  show ?thesis
    using engine_start_failures_are_skipped [OF h1 h2 h3 h5 h6 h7] h1 h6 h7
    by (simp add: session_world_def initial_world_def)
qed

section \<open>Failed resolution\<close>

text \<open>C7. When the resolution of the query fails, that is the lookup raises, or
  returns nothing, or returns a result whose track has no usable stream reference
  (absent or empty), \<open>play\<close> returns with the queue and the current track of the guild as
  they were, and no client plays that did not play before.\<close>

theorem failed_resolution_keeps_queue:
  assumes "guild i = Some gid"
    and "(\<exists>e. extract_info query = Inl e) \<or> extract_info query = Inr None \<or>
         (\<exists>info1 t. extract_info query = Inr (Some info1) \<and>
            build_track_from_info info1 (user_id i) = Inr t \<and> falsy (stream_url t))"
  shows "queue (state_of (snd (play extract_info source_ok i query w)) gid)
       = queue (state_of w gid) \<and>
     now_playing (state_of (snd (play extract_info source_ok i query w)) gid)
       = now_playing (state_of w gid) \<and>
     (\<forall>vc. vc_playing (clients (snd (play extract_info source_ok i query w)) vc)
            \<longrightarrow> vc_playing (clients w vc)) \<and>
     fst (play extract_info source_ok i query w) = Returned"
proof -
  obtain w' where p: "play extract_info source_ok i query w = (Returned, w')"
    "state_of w' = state_of (snd (ensure_voice i (snd (get_music_state gid w))))"
    "clients w' = clients (snd (ensure_voice i (snd (get_music_state gid w))))"
    using play_resolution_failed
      [where extract_info = extract_info and query = query and w = w and source_ok = source_ok,
       OF assms]
    by blast
  show ?thesis
    using ensure_voice_starts_nothing [of i "snd (get_music_state gid w)"]
    by (simp add: p ensure_voice_keeps_tracks)
qed

theorem failed_resolution_keeps_queue_witness:
  "guild (member_of 2 (Some (Some 3))) = Some 2 \<and>
   sample_extract ''missing'' = Inl ExtractError \<and>
   sample_extract ''nothing'' = Inr None \<and>
   falsy (info_url (Info None (Some ''nostream'') None None None None)) \<and>
   queue (state_of (snd (play sample_extract sample_source_ok (member_of 2 (Some (Some 3)))
       ''missing'' (session_world [song ''b'' None] (Some (song ''a'' None)) True False))) 2)
     = [song ''b'' None] \<and>
   queue (state_of (snd (play sample_extract sample_source_ok (member_of 2 (Some (Some 3)))
       ''nothing'' (session_world [song ''b'' None] (Some (song ''a'' None)) True False))) 2)
     = [song ''b'' None] \<and>
   queue (state_of (snd (play sample_extract sample_source_ok (member_of 2 (Some (Some 3)))
       ''nostream'' (session_world [song ''b'' None] (Some (song ''a'' None)) True False))) 2)
     = [song ''b'' None]"
proof -
  let ?i = "member_of 2 (Some (Some 3))"
  let ?w = "session_world [song ''b'' None] (Some (song ''a'' None)) True False"
  have g: "guild ?i = Some 2" by (simp add: member_of_def)
  have q: "queue (state_of ?w 2) = [song ''b'' None]"
    by (simp add: session_world_def state_of_def get_music_state_def)
  have a: "(\<exists>e. sample_extract ''missing'' = Inl e) \<or> sample_extract ''missing'' = Inr None \<or>
         (\<exists>info1 t. sample_extract ''missing'' = Inr (Some info1) \<and>
            build_track_from_info info1 (user_id ?i) = Inr t \<and> falsy (stream_url t))"
    by (simp add: sample_extract_def)
  have b: "(\<exists>e. sample_extract ''nothing'' = Inl e) \<or> sample_extract ''nothing'' = Inr None \<or>
         (\<exists>info1 t. sample_extract ''nothing'' = Inr (Some info1) \<and>
            build_track_from_info info1 (user_id ?i) = Inr t \<and> falsy (stream_url t))"
    by (simp add: sample_extract_def)
  have c: "(\<exists>e. sample_extract ''nostream'' = Inl e) \<or> sample_extract ''nostream'' = Inr None \<or>
         (\<exists>info1 t. sample_extract ''nostream'' = Inr (Some info1) \<and>
            build_track_from_info info1 (user_id ?i) = Inr t \<and> falsy (stream_url t))"
    by (simp add: sample_extract_def build_track_from_info_def first_entry_def falsy_def)
  show ?thesis
    using failed_resolution_keeps_queue
        [where extract_info = sample_extract and query = "''missing''" and w = ?w
           and source_ok = sample_source_ok, OF g a]
      failed_resolution_keeps_queue
        [where extract_info = sample_extract and query = "''nothing''" and w = ?w
           and source_ok = sample_source_ok, OF g b]
      failed_resolution_keeps_queue
        [where extract_info = sample_extract and query = "''nostream''" and w = ?w
           and source_ok = sample_source_ok, OF g c]
    by (simp add: q g sample_extract_def falsy_def)
qed

section \<open>Ensuring the voice session\<close>

text \<open>C8. \<open>ensure_voice\<close> returns no client exactly when the requester is in no voice
  channel, and then it only sends the message that says so. When the guild has a live
  session and the requester is in channel \<open>ch\<close>: if the session is bound to another
  channel, the client is moved to \<open>ch\<close> and returned, the registry (so every queue) is as
  before and nothing else changes; if the session is bound to \<open>ch\<close>, the client is
  returned and nothing changes at all.\<close>

theorem ensure_voice_cases:
  assumes "guild i = Some gid"
  shows "(fst (ensure_voice i w) = Inr None) = in_no_channel i \<and>
    (in_no_channel i \<longrightarrow> ensure_voice i w = (Inr None, send NeedVoiceChannel w)) \<and>
    (music_states w gid = Some st \<and> voice_client st = Some vc \<and>
        vc_connected (clients w vc) \<and> user_voice i = Some (Some ch) \<longrightarrow>
       (vc_channel (clients w vc) \<noteq> ch \<longrightarrow>
          ensure_voice i w = (Inr (Some vc), move_to vc ch w) \<and>
          music_states (move_to vc ch w) = music_states w \<and>
          clients (move_to vc ch w) = (clients w)(vc := (clients w vc)\<lparr>vc_channel := ch\<rparr>) \<and>
          sent (move_to vc ch w) = sent w) \<and>
       (vc_channel (clients w vc) = ch \<longrightarrow> ensure_voice i w = (Inr (Some vc), w)))"
  using assms
  by (auto simp: ensure_voice_def in_no_channel_def get_music_state_Some live_client_def
        move_to_def upd_client_def connect_def upd_state_def get_music_state_def Let_def
      split: option.splits prod.splits)

theorem ensure_voice_cases_witness:
  "guild (member_of 2 None) = Some 2 \<and>
   in_no_channel (member_of 2 None) \<and>
   fst (ensure_voice (member_of 2 None) (session_world [song ''b'' None] None True False))
     = Inr None \<and>
   vc_channel (clients (session_world [song ''b'' None] None True False) 0) \<noteq> 4 \<and>
   fst (ensure_voice (member_of 2 (Some (Some 4)))
         (session_world [song ''b'' None] None True False)) = Inr (Some 0) \<and>
   vc_channel (clients (snd (ensure_voice (member_of 2 (Some (Some 4)))
         (session_world [song ''b'' None] None True False))) 0) = 4 \<and>
   music_states (snd (ensure_voice (member_of 2 (Some (Some 4)))
         (session_world [song ''b'' None] None True False)))
     = music_states (session_world [song ''b'' None] None True False) \<and>
   ensure_voice (member_of 2 (Some (Some 3))) (session_world [song ''b'' None] None True False)
     = (Inr (Some 0), session_world [song ''b'' None] None True False)"
proof -
  let ?w = "session_world [song ''b'' None] None True False"
  let ?st = "\<lparr>queue = [song ''b'' None], now_playing = None, voice_client = Some 0\<rparr>"
  have g: "guild (member_of 2 v) = Some 2" for v by (simp add: member_of_def)
  have m: "music_states ?w 2 = Some ?st" "vc_connected (clients ?w 0)"
    "vc_channel (clients ?w 0) = 3"
    by (simp_all add: session_world_def)
  show ?thesis
    using ensure_voice_cases [OF g, of None ?w ?st 0 0]
      ensure_voice_cases [OF g, of "Some (Some 4)" ?w ?st 0 4]
      ensure_voice_cases [OF g, of "Some (Some 3)" ?w ?st 0 3]
    by (simp add: m g in_no_channel_def member_of_def)
qed

section \<open>Stop, then the completion signal\<close>

text \<open>C1. With a live session, \<open>stop\<close> first empties the queue and sets
  \<open>now_playing = None\<close>, and only then halts the engine (if it plays or is paused): the
  world handed to \<open>vc.stop()\<close> is \<open>cleared\<close>. When the completion signal of the halted
  track is delivered next, \<open>after_playback\<close> runs \<open>start_playback\<close>, which finds the
  queue empty: it starts nothing (no client changes, nothing is sent), the queue stays
  empty with no current track, and the coroutine enters its sleep; the re-check after
  the sleep then closes the session. The stopped track is neither queued nor current
  at any of these points.\<close>

theorem stop_then_completion_idle:
  fixes w :: world and source_ok :: "string option \<Rightarrow> bool" and tt :: string and err :: bool
  assumes "guild i = Some gid" "music_states w gid = Some st" "voice_client st = Some vc"
    "vc_connected (clients w vc)"
  defines "cleared \<equiv> upd_state gid (\<lambda>s. s\<lparr>now_playing := None\<rparr>)
                       (upd_state gid (\<lambda>s. s\<lparr>queue := []\<rparr>) w)"
    and "stopped \<equiv> snd (stop i w)"
  defines "signalled \<equiv> snd (after_playback source_ok gid tt err stopped)"
  shows "state_of cleared gid = st\<lparr>queue := [], now_playing := None\<rparr> \<and>
    clients cleared = clients w \<and>
    stop i w = (Returned, send StoppedAndCleared
       (if vc_playing (clients cleared vc) \<or> vc_paused (clients cleared vc)
        then vc_stop vc cleared else cleared)) \<and>
    state_of stopped gid = st\<lparr>queue := [], now_playing := None\<rparr> \<and>
    \<not> vc_playing (clients stopped vc) \<and> \<not> vc_paused (clients stopped vc) \<and>
    fst (after_playback source_ok gid tt err stopped) = Sleeping 5 vc \<and>
    state_of signalled gid = st\<lparr>queue := [], now_playing := None\<rparr> \<and>
    clients signalled = clients stopped \<and>
    sent signalled = sent stopped \<and>
    state_of (start_playback_wake gid vc signalled) gid
      = st\<lparr>queue := [], now_playing := None, voice_client := None\<rparr>"
proof -
  let ?st' = "st\<lparr>queue := [], now_playing := None\<rparr>"
  have c: "state_of cleared gid = ?st'" "clients cleared = clients w"
    using assms(2) by (simp_all add: cleared_def upd_state_def state_of_Some)
  have d: "stop i w = (Returned, send StoppedAndCleared
       (if vc_playing (clients cleared vc) \<or> vc_paused (clients cleared vc)
        then vc_stop vc cleared else cleared))"
    using assms(1-4)
    by (simp add: stop_def get_music_state_Some live_client_def cleared_def upd_state_def)
  have s: "stopped = w\<lparr>music_states := (music_states w)(gid \<mapsto> ?st'),
       clients := (clients w)(vc := (clients w vc)\<lparr>vc_playing := False, vc_paused := False\<rparr>),
       sent := sent w @ [StoppedAndCleared]\<rparr>"
    unfolding stopped_def stop_live [OF assms(1-4)] by simp
  have s1: "music_states stopped gid = Some ?st'" "voice_client ?st' = Some vc"
    "vc_connected (clients stopped vc)" "\<not> vc_playing (clients stopped vc)"
    "\<not> vc_paused (clients stopped vc)" "queue ?st' = []"
    using assms(3,4) by (simp_all add: s)
  have a: "after_playback source_ok gid tt err stopped =
    (Sleeping 5 vc,
     stopped\<lparr>music_states := (music_states stopped)(gid \<mapsto> ?st'\<lparr>queue := [], now_playing := None\<rparr>),
       printed := printed stopped @ (if err then [PlaybackError tt] else [])\<rparr>)"
    by (rule after_playback_empty [OF s1(1,2,3,4,6)])
  have g: "music_states signalled gid = Some ?st'" "clients signalled = clients stopped"
    "sent signalled = sent stopped"
    unfolding signalled_def a by simp_all
  have w: "state_of (start_playback_wake gid vc signalled) gid = ?st'\<lparr>voice_client := None\<rparr>"
    using wake_closes [OF g(1), of vc] s1(4) g(2)
    by (simp add: state_of_Some)
  show ?thesis
    using c d s1(4,5) g w by (simp add: a state_of_Some s1(1))
qed

theorem stop_then_completion_idle_witness:
  "guild listener = Some 2 \<and>
   music_states playing_world 2
     = Some \<lparr>queue = [song ''b'' None], now_playing = Some (song ''a'' None),
             voice_client = Some 0\<rparr> \<and>
   vc_connected (clients playing_world 0) \<and>
   state_of (snd (stop listener playing_world)) 2
     = \<lparr>queue = [], now_playing = None, voice_client = Some 0\<rparr> \<and>
   \<not> vc_playing (clients (snd (stop listener playing_world)) 0) \<and>
   fst (after_playback sample_source_ok 2 ''a'' False (snd (stop listener playing_world)))
     = Sleeping 5 0 \<and>
   state_of (snd (after_playback sample_source_ok 2 ''a'' False
       (snd (stop listener playing_world)))) 2
     = \<lparr>queue = [], now_playing = None, voice_client = Some 0\<rparr> \<and>
   state_of (start_playback_wake 2 0 (snd (after_playback sample_source_ok 2 ''a'' False
       (snd (stop listener playing_world))))) 2
     = \<lparr>queue = [], now_playing = None, voice_client = None\<rparr>"
proof -
  let ?st = "\<lparr>queue = [song ''b'' None], now_playing = Some (song ''a'' None),
     voice_client = Some 0\<rparr>"
  have g: "guild listener = Some 2" by (simp add: listener_def member_of_def)
  have m: "music_states playing_world 2 = Some ?st"
    by (simp add: playing_world_def session_world_def)
  have v: "voice_client ?st = Some 0" by simp
  have c: "vc_connected (clients playing_world 0)"
    by (simp add: playing_world_def session_world_def)
  note t = stop_then_completion_idle
    [OF g m v c, where source_ok = sample_source_ok and tt = "''a''" and err = False]
  note after_stop = t [THEN conjunct2, THEN conjunct2, THEN conjunct2]
  show ?thesis
    using after_stop g m c by simp
qed

section \<open>The grace period before the idle disconnect\<close>

text \<open>The steps of the idle disconnect. A guild with a live session, an idle engine and
  an empty queue: \<open>start_playback\<close> sets \<open>now_playing = None\<close>, closes nothing and
  suspends in a sleep of 5 seconds, holding the client \<open>vc\<close> it read. The rest of the
  coroutine, \<open>start_playback_wake\<close>, is one step on whatever world \<open>w'\<close> the sleep ends
  in: it tests that the engine of \<open>vc\<close> does not play and that the queue is empty; if both
  hold it disconnects \<open>vc\<close> and clears the stored handle, sending nothing; otherwise it
  changes nothing. With nothing in between the session is closed; with one \<open>play\<close> in
  between whose track the engine accepts, the re-check changes nothing.\<close>

lemma grace_recheck_steps:
  fixes w :: world and source_ok :: "string option \<Rightarrow> bool"
    and extract_info :: "string \<Rightarrow> exn + info option" and i :: interaction and query :: string
  assumes "music_states w gid = Some st" "voice_client st = Some vc"
    "vc_connected (clients w vc)" "\<not> vc_playing (clients w vc)" "\<not> vc_paused (clients w vc)"
    "queue st = []"
  defines "idle \<equiv> snd (start_playback source_ok gid w)"
  defines "enqueued \<equiv> snd (play extract_info source_ok i query idle)"
  shows "fst (start_playback source_ok gid w) = Sleeping 5 vc \<and>
    state_of idle gid = st\<lparr>now_playing := None\<rparr> \<and>
    clients idle = clients w \<and>
    (music_states w' gid = Some st' \<longrightarrow>
       (if \<not> vc_playing (clients w' vc) \<and> queue st' = []
        then \<not> vc_connected (clients (start_playback_wake gid vc w') vc) \<and>
             state_of (start_playback_wake gid vc w') gid = st'\<lparr>voice_client := None\<rparr> \<and>
             sent (start_playback_wake gid vc w') = sent w'
        else start_playback_wake gid vc w' = w')) \<and>
    \<not> vc_connected (clients (start_playback_wake gid vc idle) vc) \<and>
    state_of (start_playback_wake gid vc idle) gid
      = st\<lparr>now_playing := None, voice_client := None\<rparr> \<and>
    (guild i = Some gid \<and> user_voice i = Some (Some ch) \<and>
     resolve_track extract_info i query = Some t \<and> source_ok (stream_url t) \<longrightarrow>
       start_playback_wake gid vc enqueued = enqueued \<and>
       vc_connected (clients enqueued vc) \<and>
       vc_playing (clients enqueued vc) \<and>
       state_of enqueued gid = st\<lparr>now_playing := Some t\<rparr>)"
proof -
  have sp: "start_playback source_ok gid w = (Sleeping 5 vc,
          w\<lparr>music_states := (music_states w)(gid \<mapsto> st\<lparr>queue := [], now_playing := None\<rparr>)\<rparr>)"
    using start_playback_live [OF assms(1-4), of "[]" "[]" source_ok] assms(6) by simp
  let ?st1 = "st\<lparr>queue := [], now_playing := None\<rparr>"
  have st1: "?st1 = st\<lparr>now_playing := None\<rparr>"
    using assms(6) by (rule state_reset_queue [symmetric])
  have idle: "music_states idle gid = Some ?st1" "clients idle = clients w" "voice_client ?st1 = Some vc"
    "queue ?st1 = []"
    using assms(2) unfolding idle_def sp by simp_all
  have p1: "fst (start_playback source_ok gid w) = Sleeping 5 vc \<and>
    state_of idle gid = st\<lparr>now_playing := None\<rparr> \<and> clients idle = clients w"
    using idle(1,2) st1 by (simp add: sp state_of_Some)
  have p2: "music_states w' gid = Some st' \<longrightarrow>
       (if \<not> vc_playing (clients w' vc) \<and> queue st' = []
        then \<not> vc_connected (clients (start_playback_wake gid vc w') vc) \<and>
             state_of (start_playback_wake gid vc w') gid = st'\<lparr>voice_client := None\<rparr> \<and>
             sent (start_playback_wake gid vc w') = sent w'
        else start_playback_wake gid vc w' = w')"
  proof (intro impI)
    assume m: "music_states w' gid = Some st'"
    show "if \<not> vc_playing (clients w' vc) \<and> queue st' = []
        then \<not> vc_connected (clients (start_playback_wake gid vc w') vc) \<and>
             state_of (start_playback_wake gid vc w') gid = st'\<lparr>voice_client := None\<rparr> \<and>
             sent (start_playback_wake gid vc w') = sent w'
        else start_playback_wake gid vc w' = w'"
    proof (cases "\<not> vc_playing (clients w' vc) \<and> queue st' = []")
      case True
      then show ?thesis using wake_closes [OF m, of vc] by (simp add: state_of_Some)
    next
      case False
      then show ?thesis using wake_aborts [OF m, of vc] by auto
    qed
  qed
  have p3: "\<not> vc_connected (clients (start_playback_wake gid vc idle) vc) \<and>
    state_of (start_playback_wake gid vc idle) gid = st\<lparr>now_playing := None, voice_client := None\<rparr>"
  proof -
    have np: "\<not> vc_playing (clients idle vc)" using assms(4) idle(2) by simp
    show ?thesis
      unfolding wake_closes [OF idle(1) np idle(4)] st1 [symmetric] by (simp add: state_of_Some)
  qed
  have p4: "start_playback_wake gid vc enqueued = enqueued \<and>
       vc_connected (clients enqueued vc) \<and> vc_playing (clients enqueued vc) \<and>
       state_of enqueued gid = st\<lparr>now_playing := Some t\<rparr>"
    if h: "guild i = Some gid" "user_voice i = Some (Some ch)"
     "resolve_track extract_info i query = Some t" "source_ok (stream_url t)"
  proof -
    have i2: "vc_connected (clients idle vc)" "\<not> vc_playing (clients idle vc)"
      "\<not> vc_paused (clients idle vc)"
      using assms(3-5) idle(2) by simp_all
    let ?w2 = "idle\<lparr>clients := (clients idle)(vc := (clients idle vc)\<lparr>vc_channel := ch\<rparr>),
       music_states := (music_states idle)(gid \<mapsto> ?st1\<lparr>queue := queue ?st1 @ [t]\<rparr>),
       sent := sent idle @ [PlayingNow (title t)]\<rparr>"
    let ?st2 = "?st1\<lparr>queue := queue ?st1 @ [t]\<rparr>"
    have pl: "play extract_info source_ok i query idle = start_playback source_ok gid ?w2"
      by (rule play_while_idle [OF h(1,2) idle(1,3) i2 h(3)])
    have w2: "music_states ?w2 gid = Some ?st2" "voice_client ?st2 = Some vc"
      "vc_connected (clients ?w2 vc)" "\<not> vc_playing (clients ?w2 vc)"
      "queue ?st2 = [] @ [t]" "\<forall>t\<in>set []. \<not> source_ok (stream_url t)"
      "[t] = [] \<or> source_ok (stream_url (hd [t]))"
      using assms(2) i2 h(4) by simp_all
    have e: "enqueued = snd (start_playback source_ok gid ?w2)"
      by (simp add: enqueued_def pl)
    have m: "music_states enqueued gid = Some (st\<lparr>queue := [], now_playing := Some t\<rparr>)"
      "vc_connected (clients enqueued vc)" "vc_playing (clients enqueued vc)"
      unfolding e start_playback_live [OF w2] using i2 by simp_all
    have q: "st\<lparr>queue := [], now_playing := Some t\<rparr> = st\<lparr>now_playing := Some t\<rparr>"
      using assms(6) by (rule state_reset_queue [symmetric])
    show ?thesis
      using m wake_aborts [OF m(1), of vc] by (simp add: state_of_Some q)
  qed
  have p4': "guild i = Some gid \<and> user_voice i = Some (Some ch) \<and>
     resolve_track extract_info i query = Some t \<and> source_ok (stream_url t) \<longrightarrow>
       start_playback_wake gid vc enqueued = enqueued \<and>
       vc_connected (clients enqueued vc) \<and>
       vc_playing (clients enqueued vc) \<and>
       state_of enqueued gid = st\<lparr>now_playing := Some t\<rparr>"
    using p4 by (intro impI) (elim conjE)
  from p1 p2 p3 p4' show ?thesis by (intro conjI) (elim conjE, assumption)+
qed

lemma asleep_world_eq:
  "start_playback sample_source_ok 2 drained_world =
     (Sleeping 5 0,
      drained_world\<lparr>music_states := (music_states drained_world)
        (2 \<mapsto> \<lparr>queue = [], now_playing = None, voice_client = Some 0\<rparr>)\<rparr>)"
proof -
  let ?st = "\<lparr>queue = [], now_playing = Some (song ''a'' None), voice_client = Some 0\<rparr>"
  have m: "music_states drained_world 2 = Some ?st"
    by (simp add: drained_world_def session_world_def)
  have c: "vc_connected (clients drained_world 0)" "\<not> vc_playing (clients drained_world 0)"
    by (simp_all add: drained_world_def session_world_def)
  show ?thesis
    using start_playback_live [OF m _ c, of "[]" "[]" sample_source_ok] by simp
qed

lemmas run_defs = play_def pause_def leave_def ensure_voice_def ytdlp_extract_def
  sample_extract_def build_track_from_info_def first_entry_def falsy_def listener_def
  member_of_def drained_world_def session_world_def initial_world_def start_playback.simps
  start_playback_wake_def vc_play_def vc_pause_def vc_disconnect_def connect_def move_to_def
  sample_source_ok_def song_def world_ops

text \<open>C2. The claim promises that a track enqueued and started during the grace
  window keeps the session open. The code breaks this on two runs during the sleep of
  guild 2, which holds client 0.

  First run, \<open>play\<close> then \<open>pause\<close>: the track \<open>b\<close> is current and paused on client 0,
  which is connected and is the stored handle. The re-check tests only \<open>is_playing()\<close>,
  where \<open>play\<close> and \<open>skip\<close> test \<open>is_playing()\<close> and \<open>is_paused()\<close>; it finds the engine not
  playing and the queue empty, disconnects client 0 and clears the handle, with \<open>b\<close>
  still the current track.

  Second run, \<open>leave\<close> then \<open>play\<close>: \<open>play\<close> opened a new session, client 1, which is the
  stored handle and plays \<open>b\<close>. The re-check tests the client it read before the sleep,
  client 0, and assigns to the stored handle whatever it holds: the handle of the
  playing session is cleared, and client 1 stays connected and playing with no handle
  left to reach it.\<close>

theorem grace_recheck_closes_active_session:
  "fst (start_playback sample_source_ok 2 drained_world) = Sleeping 5 0 \<and>
   now_playing (state_of paused_in_window 2) = Some (song ''b'' (Some 180)) \<and>
   queue (state_of paused_in_window 2) = [] \<and>
   voice_client (state_of paused_in_window 2) = Some 0 \<and>
   vc_connected (clients paused_in_window 0) \<and>
   vc_paused (clients paused_in_window 0) \<and>
   \<not> vc_connected (clients (start_playback_wake 2 0 paused_in_window) 0) \<and>
   voice_client (state_of (start_playback_wake 2 0 paused_in_window) 2) = None \<and>
   now_playing (state_of (start_playback_wake 2 0 paused_in_window) 2)
     = Some (song ''b'' (Some 180)) \<and>
   now_playing (state_of rejoined_in_window 2) = Some (song ''b'' (Some 180)) \<and>
   voice_client (state_of rejoined_in_window 2) = Some 1 \<and>
   vc_connected (clients rejoined_in_window 1) \<and>
   vc_playing (clients rejoined_in_window 1) \<and>
   voice_client (state_of (start_playback_wake 2 0 rejoined_in_window) 2) = None \<and>
   vc_connected (clients (start_playback_wake 2 0 rejoined_in_window) 1) \<and>
   vc_playing (clients (start_playback_wake 2 0 rejoined_in_window) 1)"
proof -
  have p: "now_playing (state_of paused_in_window 2) = Some (song ''b'' (Some 180)) \<and>
     queue (state_of paused_in_window 2) = [] \<and>
     voice_client (state_of paused_in_window 2) = Some 0 \<and>
     vc_connected (clients paused_in_window 0) \<and>
     vc_paused (clients paused_in_window 0) \<and>
     \<not> vc_connected (clients (start_playback_wake 2 0 paused_in_window) 0) \<and>
     voice_client (state_of (start_playback_wake 2 0 paused_in_window) 2) = None \<and>
     now_playing (state_of (start_playback_wake 2 0 paused_in_window) 2)
       = Some (song ''b'' (Some 180))"
    by (simp add: asleep_world_eq paused_in_window_def asleep_world_def run_defs)
  have r: "now_playing (state_of rejoined_in_window 2) = Some (song ''b'' (Some 180)) \<and>
     voice_client (state_of rejoined_in_window 2) = Some 1 \<and>
     vc_connected (clients rejoined_in_window 1) \<and>
     vc_playing (clients rejoined_in_window 1) \<and>
     voice_client (state_of (start_playback_wake 2 0 rejoined_in_window) 2) = None \<and>
     vc_connected (clients (start_playback_wake 2 0 rejoined_in_window) 1) \<and>
     vc_playing (clients (start_playback_wake 2 0 rejoined_in_window) 1)"
    by (simp add: asleep_world_eq rejoined_in_window_def asleep_world_def run_defs)
  show ?thesis
    using p r by (simp add: asleep_world_eq)
qed

section \<open>The queue is first in, first out\<close>

text \<open>C3. While the engine of a live session plays, \<open>play\<close> requests whose queries
  resolve to the tracks \<open>ts\<close> append exactly \<open>ts\<close> to the queue, in order, and leave the
  current track alone. Then the completion signals advance through the queue from its
  head: after \<open>k + 1\<close> signals the current track is the track at position \<open>k\<close> among the
  queued tracks that the engine accepts, and, when the engine accepts them all, the
  track at position \<open>k\<close> of the queue: the tracks become current in the order in which
  they were enqueued.\<close>

theorem queue_is_fifo:
  fixes w :: world and source_ok :: "string option \<Rightarrow> bool"
    and extract_info :: "string \<Rightarrow> exn + info option"
  assumes "music_states w gid = Some st" "voice_client st = Some vc" "vc_connected (clients w vc)"
    "vc_playing (clients w vc)"
    and "list_all2 (\<lambda>(i, query) t. guild i = Some gid \<and> \<not> in_no_channel i \<and>
              resolve_track extract_info i query = Some t) reqs ts"
  defines "enqueued \<equiv> plays extract_info source_ok reqs w"
  shows "queue (state_of enqueued gid) = queue st @ ts \<and>
    now_playing (state_of enqueued gid) = now_playing st \<and>
    (k < length (filter (\<lambda>t. source_ok (stream_url t)) (queue st @ ts)) \<and> length sigs = Suc k \<longrightarrow>
       now_playing (state_of (completions source_ok gid vc sigs enqueued) gid)
         = Some (filter (\<lambda>t. source_ok (stream_url t)) (queue st @ ts) ! k)) \<and>
    ((\<forall>t\<in>set (queue st @ ts). source_ok (stream_url t)) \<and>
     k < length (queue st @ ts) \<and> length sigs = Suc k \<longrightarrow>
       now_playing (state_of (completions source_ok gid vc sigs enqueued) gid)
         = Some ((queue st @ ts) ! k))"
proof -
  let ?P = "\<lambda>t. source_ok (stream_url t)"
  let ?st' = "st\<lparr>queue := queue st @ ts\<rparr>"
  have a: "vc_playing (clients w vc) \<or> vc_paused (clients w vc)" using assms(4) by simp
  have e: "music_states enqueued gid = Some ?st'" "vc_connected (clients enqueued vc)"
    unfolding enqueued_def
    using plays_while_active [OF assms(5) assms(1-3) a, of source_ok] by simp_all
  have v: "voice_client ?st' = Some vc" "queue ?st' = queue st @ ts" using assms(2) by simp_all
  have g: "now_playing (state_of (completions source_ok gid vc sigs enqueued) gid)
         = Some (filter ?P (queue st @ ts) ! k)"
    if "k < length (filter ?P (queue st @ ts))" "length sigs = Suc k"
    using completions_in_order [OF e(1) v(1) e(2), of k source_ok sigs] that by simp
  have f: "filter ?P (queue st @ ts) = queue st @ ts"
    if "\<forall>t\<in>set (queue st @ ts). source_ok (stream_url t)"
    using that by (simp add: filter_id_conv)
  have g': "now_playing (state_of (completions source_ok gid vc sigs enqueued) gid)
         = Some ((queue st @ ts) ! k)"
    if "\<forall>t\<in>set (queue st @ ts). source_ok (stream_url t)" "k < length (queue st @ ts)"
       "length sigs = Suc k"
    using g that f [OF that(1)] by simp
  show ?thesis
    using e(1) g g' by (simp add: state_of_Some)
qed


theorem queue_is_fifo_witness:
  "music_states playing_world 2
     = Some \<lparr>queue = [song ''b'' None], now_playing = Some (song ''a'' None),
             voice_client = Some 0\<rparr> \<and>
   vc_playing (clients playing_world 0) \<and>
   resolve_track sample_extract listener ''c'' = Some (song ''c'' (Some 180)) \<and>
   resolve_track sample_extract (member_of 2 (Some (Some 4))) ''d''
     = Some (song ''d'' (Some 180)) \<and>
   queue (state_of (plays sample_extract sample_source_ok
       [(listener, ''c''), (member_of 2 (Some (Some 4)), ''d'')] playing_world) 2)
     = [song ''b'' None, song ''c'' (Some 180), song ''d'' (Some 180)] \<and>
   now_playing (state_of (completions sample_source_ok 2 0 [(''a'', False)]
       (plays sample_extract sample_source_ok
          [(listener, ''c''), (member_of 2 (Some (Some 4)), ''d'')] playing_world)) 2)
     = Some (song ''b'' None) \<and>
   now_playing (state_of (completions sample_source_ok 2 0 [(''a'', False), (''b'', True)]
       (plays sample_extract sample_source_ok
          [(listener, ''c''), (member_of 2 (Some (Some 4)), ''d'')] playing_world)) 2)
     = Some (song ''c'' (Some 180)) \<and>
   now_playing (state_of (completions sample_source_ok 2 0
       [(''a'', False), (''b'', True), (''c'', False)]
       (plays sample_extract sample_source_ok
          [(listener, ''c''), (member_of 2 (Some (Some 4)), ''d'')] playing_world)) 2)
     = Some (song ''d'' (Some 180))"
proof -
  let ?st = "\<lparr>queue = [song ''b'' None], now_playing = Some (song ''a'' None),
     voice_client = Some 0\<rparr>"
  let ?reqs = "[(listener, ''c''), (member_of 2 (Some (Some 4)), ''d'')]"
  let ?ts = "[song ''c'' (Some 180), song ''d'' (Some 180)]"
  have m: "music_states playing_world 2 = Some ?st"
    by (simp add: playing_world_def session_world_def)
  have v: "voice_client ?st = Some 0" by simp
  have c: "vc_connected (clients playing_world 0)" "vc_playing (clients playing_world 0)"
    by (simp_all add: playing_world_def session_world_def)
  have r: "resolve_track sample_extract listener ''c'' = Some (song ''c'' (Some 180))"
    "resolve_track sample_extract (member_of 2 (Some (Some 4))) ''d''
       = Some (song ''d'' (Some 180))"
    by (simp_all add: resolve_track_def sample_extract_def build_track_from_info_def
          first_entry_def falsy_def song_def listener_def member_of_def)
  have l: "list_all2 (\<lambda>(i, query) t. guild i = Some 2 \<and> \<not> in_no_channel i \<and>
              resolve_track sample_extract i query = Some t) ?reqs ?ts"
    using r by (simp add: listener_def member_of_def in_no_channel_def)
  have ok: "\<forall>t\<in>set (queue ?st @ ?ts). sample_source_ok (stream_url t)"
    by (simp add: sample_source_ok_def song_def)
  show ?thesis
    using queue_is_fifo [OF m v c l, where source_ok = sample_source_ok and k = 0
          and sigs = "[(''a'', False)]"]
      queue_is_fifo [OF m v c l, where source_ok = sample_source_ok and k = 1
          and sigs = "[(''a'', False), (''b'', True)]"]
      queue_is_fifo [OF m v c l, where source_ok = sample_source_ok and k = 2
          and sigs = "[(''a'', False), (''b'', True), (''c'', False)]"]
      ok m c(2) r
    by simp
qed

section \<open>What \<open>leave\<close>, \<open>stop\<close> and the idle disconnect reset\<close>




end
